theory Spec2Isabelle
  imports Complex_Main "HOL-Library.Sublist"
begin

section \<open>Python values\<close>

text \<open>
  The pipes of this repository (cloudflare, deepseek, mistral, perplexity, xai) pass around
  what \<^verbatim>\<open>json.loads\<close> and \<^verbatim>\<open>response.json()\<close> return: \<^verbatim>\<open>None\<close>, booleans, integers,
  floats, strings, lists and dicts. A Python \<^verbatim>\<open>str\<close> is represented by its UTF-8 encoding, one
  \<^typ>\<open>char\<close> per byte; a dict by its items in insertion order.
\<close>

datatype pyfloat = FRat rat | FPosInf | FNegInf | FNaN

datatype json =
    JNone
  | JBool bool
  | JInt int
  | JFloat pyfloat
  | JStr string
  | JList "json list"
  | JDict "(string \<times> json) list"

text \<open>
  The exceptions (all subclasses of \<^verbatim>\<open>Exception\<close>) that the modelled code can meet. \<open>HTTPError\<close>
  and \<open>Timeout\<close> are subclasses of \<^verbatim>\<open>requests.exceptions.RequestException\<close>; \<open>RequestException\<close>
  stands for every other member of that class (connection errors, and the JSON decode error of
  \<^verbatim>\<open>response.json()\<close> in recent versions of requests), \<open>OtherException\<close> for every exception
  outside it that the environment may raise.
\<close>

datatype exn =
    TypeError
  | KeyError
  | IndexError
  | AttributeError
  | UnicodeDecodeError
  | HTTPError
  | Timeout
  | RequestException
  | OtherException

fun is_RequestException :: "exn \<Rightarrow> bool" where
  "is_RequestException HTTPError = True"
| "is_RequestException Timeout = True"
| "is_RequestException RequestException = True"
| "is_RequestException _ = False"

text \<open>Truth value testing (\<^verbatim>\<open>if x:\<close>).\<close>

fun truthy :: "json \<Rightarrow> bool" where
  "truthy JNone = False"
| "truthy (JBool b) = b"
| "truthy (JInt i) = (i \<noteq> 0)"
| "truthy (JFloat f) = (f \<noteq> FRat 0)"
| "truthy (JStr s) = (s \<noteq> [])"
| "truthy (JList xs) = (xs \<noteq> [])"
| "truthy (JDict kvs) = (kvs \<noteq> [])"

subsection \<open>String operations\<close>

text \<open>\<^verbatim>\<open>p in s\<close> for two strings: \<open>p\<close> occurs in \<open>s\<close> as a contiguous block.\<close>

fun substring :: "string \<Rightarrow> string \<Rightarrow> bool" where
  "substring p [] = (p = [])"
| "substring p (c # cs) = (prefix p (c # cs) \<or> substring p cs)"

text \<open>A continuation byte of UTF-8 has the bit pattern 10xxxxxx.\<close>

definition is_cont :: "char \<Rightarrow> bool" where
  "is_cont c = (128 \<le> (of_char c :: nat) \<and> (of_char c :: nat) < 192)"

text \<open>\<^verbatim>\<open>len(s)\<close> counts code points: the bytes that start a character.\<close>

definition str_len :: "string \<Rightarrow> nat" where
  "str_len s = length (filter (\<lambda>c. \<not> is_cont c) s)"

text \<open>\<^verbatim>\<open>s[0]\<close> of a non-empty string: its first character, itself a string.\<close>

definition first_char :: "string \<Rightarrow> string" where
  "first_char s = (case s of [] \<Rightarrow> [] | c # cs \<Rightarrow> c # takeWhile is_cont cs)"

text \<open>The characters of a string, as \<^verbatim>\<open>for ch in s\<close> visits them.\<close>

function utf8_chars :: "string \<Rightarrow> string list" where
  "utf8_chars [] = []"
| "utf8_chars (c # cs) = (c # takeWhile is_cont cs) # utf8_chars (dropWhile is_cont cs)"
  by pat_completeness auto
termination
  by (relation "measure length") (auto simp: length_dropWhile_le less_Suc_eq_le)

text \<open>
  The characters for which \<^verbatim>\<open>str.isspace()\<close> holds, in UTF-8: U+0009 to U+000D, U+001C to
  U+0020, U+0085, U+00A0, U+1680, U+2000 to U+200A, U+2028, U+2029, U+202F, U+205F, U+3000.
\<close>

definition whitespace :: "string list" where
  "whitespace =
    [[CHR 0x09], [CHR 0x0A], [CHR 0x0B], [CHR 0x0C], [CHR 0x0D],
     [CHR 0x1C], [CHR 0x1D], [CHR 0x1E], [CHR 0x1F], [CHR 0x20],
     [CHR 0xC2, CHR 0x85], [CHR 0xC2, CHR 0xA0],
     [CHR 0xE1, CHR 0x9A, CHR 0x80],
     [CHR 0xE2, CHR 0x80, CHR 0x80], [CHR 0xE2, CHR 0x80, CHR 0x81],
     [CHR 0xE2, CHR 0x80, CHR 0x82], [CHR 0xE2, CHR 0x80, CHR 0x83],
     [CHR 0xE2, CHR 0x80, CHR 0x84], [CHR 0xE2, CHR 0x80, CHR 0x85],
     [CHR 0xE2, CHR 0x80, CHR 0x86], [CHR 0xE2, CHR 0x80, CHR 0x87],
     [CHR 0xE2, CHR 0x80, CHR 0x88], [CHR 0xE2, CHR 0x80, CHR 0x89],
     [CHR 0xE2, CHR 0x80, CHR 0x8A],
     [CHR 0xE2, CHR 0x80, CHR 0xA8], [CHR 0xE2, CHR 0x80, CHR 0xA9],
     [CHR 0xE2, CHR 0x80, CHR 0xAF],
     [CHR 0xE2, CHR 0x81, CHR 0x9F],
     [CHR 0xE3, CHR 0x80, CHR 0x80]]"

text \<open>Removing from the front of \<open>s\<close>, again and again, any of the non-empty blocks \<open>ws\<close>.\<close>

function strip_front :: "string list \<Rightarrow> string \<Rightarrow> string" where
  "strip_front ws s =
     (case find (\<lambda>w. w \<noteq> [] \<and> prefix w s) ws of
        None \<Rightarrow> s
      | Some w \<Rightarrow> strip_front ws (drop (length w) s))"
  by pat_completeness auto
termination
proof (relation "measure (\<lambda>(ws, s). length s)")
  show "wf (measure (\<lambda>(ws, s). length s))" by simp
next
  fix ws :: "string list" and s w :: string
  assume "find (\<lambda>w. w \<noteq> [] \<and> prefix w s) ws = Some w"
  then have "w \<noteq> []" and "prefix w s"
    by (auto simp: find_Some_iff)
  then have "0 < length w" and "length w \<le> length s"
    by (auto simp: prefix_length_le)
  then have "length s - length w < length s"
    by arith
  then show "((ws, drop (length w) s), (ws, s)) \<in> measure (\<lambda>(ws, s). length s)"
    by simp
qed

declare strip_front.simps [simp del]

text \<open>\<^verbatim>\<open>s.strip()\<close>: leading and trailing whitespace removed.\<close>

definition strip :: "string \<Rightarrow> string" where
  "strip s = rev (strip_front (map rev whitespace) (rev (strip_front whitespace s)))"

text \<open>\<^verbatim>\<open>s.replace(old, new)\<close>: every occurrence of \<open>old\<close>, found from the left, replaced.\<close>

function replace :: "string \<Rightarrow> string \<Rightarrow> string \<Rightarrow> string" where
  "replace old new [] = (if old = [] then new else [])"
| "replace old new (c # cs) =
     (if old = [] then new @ c # replace old new cs
      else if prefix old (c # cs) then new @ replace old new (drop (length old) (c # cs))
      else c # replace old new cs)"
  by pat_completeness auto
termination
  by (relation "measure (\<lambda>(old, new, s). length s)") auto

text \<open>\<^verbatim>\<open>s.split(sep, 1)\<close> for a separator of one character: at most one split, at the first one.\<close>

definition split1 :: "char \<Rightarrow> string \<Rightarrow> string list" where
  "split1 sep s =
     (if sep \<in> set s then [takeWhile (\<lambda>c. c \<noteq> sep) s, tl (dropWhile (\<lambda>c. c \<noteq> sep) s)]
      else [s])"

text \<open>\<^verbatim>\<open>sep.join(parts)\<close>.\<close>

fun join :: "string \<Rightarrow> string list \<Rightarrow> string" where
  "join sep [] = []"
| "join sep [x] = x"
| "join sep (x # y # ys) = x @ sep @ join sep (y # ys)"

text \<open>\<^verbatim>\<open>str(n)\<close> of a non-negative integer.\<close>

definition digit :: "nat \<Rightarrow> char" where
  "digit d = ''0123456789'' ! d"

function str_nat :: "nat \<Rightarrow> string" where
  "str_nat n = (if n < 10 then [digit n] else str_nat (n div 10) @ [digit (n mod 10)])"
  by pat_completeness auto
termination
  by (relation "measure id") auto

declare str_nat.simps [simp del]

subsection \<open>Operations on untyped values\<close>

text \<open>\<^verbatim>\<open>k in v\<close> for a string \<open>k\<close>.\<close>

fun py_in :: "string \<Rightarrow> json \<Rightarrow> exn + bool" where
  "py_in k (JDict kvs) = Inr (k \<in> set (map fst kvs))"
| "py_in k (JStr s) = Inr (substring k s)"
| "py_in k (JList xs) = Inr (JStr k \<in> set xs)"
| "py_in k _ = Inl TypeError"

text \<open>\<^verbatim>\<open>v[k]\<close> for a string \<open>k\<close>.\<close>

fun getitem :: "json \<Rightarrow> string \<Rightarrow> exn + json" where
  "getitem (JDict kvs) k = (case map_of kvs k of None \<Rightarrow> Inl KeyError | Some x \<Rightarrow> Inr x)"
| "getitem _ k = Inl TypeError"

text \<open>\<^verbatim>\<open>v[0]\<close>. No key of a dict that came from JSON is the integer 0.\<close>

fun getitem0 :: "json \<Rightarrow> exn + json" where
  "getitem0 (JList xs) = (case xs of [] \<Rightarrow> Inl IndexError | x # _ \<Rightarrow> Inr x)"
| "getitem0 (JStr s) = (if s = [] then Inl IndexError else Inr (JStr (first_char s)))"
| "getitem0 (JDict kvs) = Inl KeyError"
| "getitem0 _ = Inl TypeError"

text \<open>\<^verbatim>\<open>v.get(k, d)\<close>: only a dict has the method.\<close>

fun get :: "json \<Rightarrow> string \<Rightarrow> json \<Rightarrow> exn + json" where
  "get (JDict kvs) k d = Inr (case map_of kvs k of None \<Rightarrow> d | Some x \<Rightarrow> x)"
| "get _ k d = Inl AttributeError"

text \<open>\<^verbatim>\<open>len(v)\<close>.\<close>

fun py_len :: "json \<Rightarrow> exn + nat" where
  "py_len (JList xs) = Inr (length xs)"
| "py_len (JStr s) = Inr (str_len s)"
| "py_len (JDict kvs) = Inr (length kvs)"
| "py_len _ = Inl TypeError"

text \<open>The values that \<^verbatim>\<open>for x in v\<close> visits.\<close>

fun py_iter :: "json \<Rightarrow> exn + json list" where
  "py_iter (JList xs) = Inr xs"
| "py_iter (JStr s) = Inr (map JStr (utf8_chars s))"
| "py_iter (JDict kvs) = Inr (map (JStr \<circ> fst) kvs)"
| "py_iter _ = Inl TypeError"


section \<open>Requests, responses and generators\<close>

text \<open>
  A chat message is a dict read through \<^verbatim>\<open>msg.get("role", "user")\<close> and
  \<^verbatim>\<open>msg.get("content", "")\<close>: a field is \<open>None\<close> when the key is absent.
\<close>

record message =
  role :: "string option"
  content :: "string option"

text \<open>
  The request body of the host, a dict: its keys \<^verbatim>\<open>model\<close>, \<^verbatim>\<open>messages\<close> and \<^verbatim>\<open>stream\<close>
  (\<open>None\<close> when absent), and every other key through \<open>params\<close>.
\<close>

record body =
  model :: "string option"
  messages :: "message list option"
  stream :: "json option"
  params :: "string \<Rightarrow> json option"

text \<open>The JSON payload sent to the provider, a dict with the keys the pipes may set.\<close>

record payload =
  p_model :: "string option"
  p_messages :: "message list option"
  p_input :: "string option"
  p_params :: "(string \<times> json) list"
  p_stream :: "json option"

text \<open>One call of \<^verbatim>\<open>requests.post(url, headers=, json=, stream=, timeout=)\<close>.\<close>

record call =
  url :: string
  headers :: "(string \<times> string) list"
  json_arg :: payload
  stream_arg :: bool
  timeout_arg :: "nat option"

text \<open>
  What \<^verbatim>\<open>response.iter_lines()\<close> produces, one step at a time: a line of bytes that decodes
  as UTF-8 to the given text, a line of bytes that does not decode, or an exception raised by
  the read itself.
\<close>

datatype chunk = Line string | Undecodable | ReadError exn

record response =
  status_code :: nat
  text_of :: string
  json_of :: "exn + json"
  iter_lines :: "chunk list"

text \<open>The transport: what \<^verbatim>\<open>requests.post\<close> does with a call, raise or return a response.\<close>

type_synonym transport = "call \<Rightarrow> exn + response"

text \<open>
  A generator, as its consumer sees it when it pulls to the end: the values yielded in
  order, then either exhaustion or an exception raised out of the generator.
\<close>

datatype ending = Finished | Raised exn

type_synonym run = "json list \<times> ending"

definition yield :: "json list \<Rightarrow> run \<Rightarrow> run" where
  "yield ys r = (ys @ fst r, snd r)"

text \<open>
  What \<^verbatim>\<open>pipe\<close> hands to the host: a value, or a generator, here with the run that consuming
  it gives and the calls of \<^verbatim>\<open>requests.post\<close> made while it runs.
\<close>

datatype pipe_result = Returned json | Generator run "call list"

text \<open>The parameters of the body that are present, among the given keys.\<close>

definition copy_params :: "string list \<Rightarrow> body \<Rightarrow> (string \<times> json) list" where
  "copy_params keys b = List.map_filter (\<lambda>k. map_option (Pair k) (params b k)) keys"

text \<open>\<^verbatim>\<open>response.raise_for_status()\<close> of requests: a 4xx or 5xx status raises.\<close>

definition raise_for_status :: "response \<Rightarrow> exn option" where
  "raise_for_status r =
     (if 400 \<le> status_code r \<and> status_code r < 600 then Some HTTPError else None)"

section \<open>cloudflare\_pipe.py\<close>

record cf_valves =
  CLOUDFLARE_API_KEY :: string
  CLOUDFLARE_ACCOUNT_ID :: string
  BASE_URL :: string

definition model_mapping :: "(string \<times> string) list" where
  "model_mapping =
    [(''cf-gpt-oss-120b'', ''@cf/openai/gpt-oss-120b''),
     (''cf-llama-3.1-70b-instruct'', ''@cf/meta/llama-3.1-70b-instruct''),
     (''cf-llama-3.3-70b-instruct-fp8-fast'', ''@cf/meta/llama-3.3-70b-instruct-fp8-fast''),
     (''cf-mistral-small-3.1-24b-instruct'', ''@cf/mistral/mistral-small-3.1-24b-instruct''),
     (''cf-llama-3.1-8b-instruct'', ''@cf/meta/llama-3.1-8b-instruct''),
     (''cf-mistral-7b-instruct-v0.2'', ''@cf/mistral/mistral-7b-instruct-v0.2''),
     (''cf-qwen2.5-coder-32b-instruct'', ''@cf/qwen/qwen2.5-coder-32b-instruct''),
     (''cf-gemma-3-12b-it'', ''@cf/google/gemma-3-12b-it''),
     (''cf-gpt-oss-20b'', ''@cf/openai/gpt-oss-20b''),
     (''cf-llama-3.2-1b-instruct'', ''@cf/meta/llama-3.2-1b-instruct''),
     (''cf-llama-3.2-3b-instruct'', ''@cf/meta/llama-3.2-3b-instruct'')]"

definition get_cloudflare_model_name :: "string \<Rightarrow> string" where
  "get_cloudflare_model_name model_id =
     (case map_of model_mapping model_id of None \<Rightarrow> model_id | Some n \<Rightarrow> n)"

definition uses_responses_endpoint :: "string \<Rightarrow> bool" where
  "uses_responses_endpoint cf_model_name = substring ''openai/gpt-oss'' cf_model_name"

text \<open>The body of the loop of \<^verbatim>\<open>messages_to_input\<close>: the part appended for one message.\<close>

definition input_part :: "message \<Rightarrow> string" where
  "input_part msg =
     (let r = (case role msg of None \<Rightarrow> ''user'' | Some r \<Rightarrow> r);
          c = (case content msg of None \<Rightarrow> [] | Some c \<Rightarrow> c)
      in if r = ''system'' then ''System: '' @ c
         else if r = ''assistant'' then ''Assistant: '' @ c
         else if r = ''user'' then ''User: '' @ c
         else c)"

definition messages_to_input :: "message list \<Rightarrow> string" where
  "messages_to_input msgs =
     (if msgs = [] then []
      else if length msgs = 1 then (case content (msgs ! 0) of None \<Rightarrow> [] | Some c \<Rightarrow> c)
      else join [CHR 0x0A, CHR 0x0A] (map input_part msgs))"

subsection \<open>The non-streaming extraction\<close>

text \<open>The inner loop of lines 221 to 227: the first item of type \<^verbatim>\<open>output_text\<close>.\<close>

fun find_output_text :: "json list \<Rightarrow> json option" where
  "find_output_text [] = None"
| "find_output_text (content_item # rest) =
     (case content_item of
        JDict kvs \<Rightarrow>
          if map_of kvs ''type'' = Some (JStr ''output_text'')
          then Some (case map_of kvs ''text'' of None \<Rightarrow> JStr [] | Some t \<Rightarrow> t)
          else find_output_text rest
      | _ \<Rightarrow> find_output_text rest)"

text \<open>The outer loop of lines 216 to 227 over the \<^verbatim>\<open>output\<close> array.\<close>

fun find_message :: "json list \<Rightarrow> json option" where
  "find_message [] = None"
| "find_message (item # rest) =
     (case item of
        JDict kvs \<Rightarrow>
          if map_of kvs ''type'' = Some (JStr ''message'')
          then (case (case map_of kvs ''content'' of None \<Rightarrow> JList [] | Some c \<Rightarrow> c) of
                  JList cont \<Rightarrow>
                    (case find_output_text cont of
                       Some t \<Rightarrow> Some t
                     | None \<Rightarrow> find_message rest)
                | _ \<Rightarrow> find_message rest)
          else find_message rest
      | _ \<Rightarrow> find_message rest)"

text \<open>
  Lines 201 to 230 of \<^verbatim>\<open>pipe\<close>, applied to the value of \<^verbatim>\<open>response.json()\<close>. \<open>str_list\<close> is
  Python's \<^verbatim>\<open>str\<close> of a list of strings, which formats the keys in the fallback message.
\<close>

definition extract_text :: "(string list \<Rightarrow> string) \<Rightarrow> json \<Rightarrow> exn + json" where
  "extract_text str_list result =
     (case get result ''result'' result of
        Inl e \<Rightarrow> Inl e
      | Inr response_data \<Rightarrow>
          (case response_data of
             JStr s \<Rightarrow> Inr response_data
           | JDict kvs \<Rightarrow>
               (case map_of kvs ''response'' of
                  Some r \<Rightarrow> Inr r
                | None \<Rightarrow>
                    (case (case map_of kvs ''output'' of
                             Some (JList output_array) \<Rightarrow> find_message output_array
                           | _ \<Rightarrow> None) of
                       Some t \<Rightarrow> Inr t
                     | None \<Rightarrow>
                         Inr (JStr (''Error: Could not extract text from response. Response keys: ''
                                    @ str_list (map fst kvs)))))
           | _ \<Rightarrow>
               Inr (JStr ''Error: Could not extract text from response. Response keys: not a dict'')))"

subsection \<open>The streaming decoder\<close>

text \<open>
  The loop of lines 269 to 273 over the choices: what it yields, and the exception that
  ends it, if any.
\<close>

fun choices_loop :: "json list \<Rightarrow> json list \<times> exn option" where
  "choices_loop [] = ([], None)"
| "choices_loop (choice # rest) =
     (case py_in ''delta'' choice of
        Inl e \<Rightarrow> ([], Some e)
      | Inr has_delta \<Rightarrow>
          if has_delta then
            (case getitem choice ''delta'' of
               Inl e \<Rightarrow> ([], Some e)
             | Inr delta \<Rightarrow>
                 (case get delta ''content'' (JStr []) of
                    Inl e \<Rightarrow> ([], Some e)
                  | Inr cont \<Rightarrow>
                      if truthy cont
                      then (cont # fst (choices_loop rest), snd (choices_loop rest))
                      else choices_loop rest))
          else choices_loop rest)"

text \<open>Lines 259 to 275: what one parsed event yields, and the exception it raises, if any.\<close>

definition event_fragments :: "json \<Rightarrow> json list \<times> exn option" where
  "event_fragments json_data =
     (case py_in ''response'' json_data of
        Inl e \<Rightarrow> ([], Some e)
      | Inr has_response \<Rightarrow>
        if has_response then
          (case getitem json_data ''response'' of
             Inl e \<Rightarrow> ([], Some e)
           | Inr v \<Rightarrow> ([v], None))
        else
          (case py_in ''result'' json_data of
             Inl e \<Rightarrow> ([], Some e)
           | Inr has_result \<Rightarrow>
             if has_result then
               (case getitem json_data ''result'' of
                  Inl e \<Rightarrow> ([], Some e)
                | Inr result \<Rightarrow>
                    (case result of
                       JStr s \<Rightarrow> ([result], None)
                     | JDict kvs \<Rightarrow>
                         (case map_of kvs ''response'' of
                            Some r \<Rightarrow> ([r], None)
                          | None \<Rightarrow> ([], None))
                     | _ \<Rightarrow> ([], None)))
             else
               (case py_in ''choices'' json_data of
                  Inl e \<Rightarrow> ([], Some e)
                | Inr has_choices \<Rightarrow>
                  if has_choices then
                    (case getitem json_data ''choices'' of
                       Inl e \<Rightarrow> ([], Some e)
                     | Inr choices \<Rightarrow>
                         (case py_iter choices of
                            Inl e \<Rightarrow> ([], Some e)
                          | Inr cs \<Rightarrow> choices_loop cs))
                  else
                    (case py_in ''content'' json_data of
                       Inl e \<Rightarrow> ([], Some e)
                     | Inr has_content \<Rightarrow>
                       if has_content then
                         (case getitem json_data ''content'' of
                            Inl e \<Rightarrow> ([], Some e)
                          | Inr v \<Rightarrow> ([v], None))
                       else ([], None)))))"

text \<open>
  The \<^verbatim>\<open>for\<close> loop of \<^verbatim>\<open>stream_response\<close> (lines 242 to 280), inside the outer \<^verbatim>\<open>try\<close>.
  \<open>loads\<close> is \<^verbatim>\<open>json.loads\<close>, \<open>None\<close> where it raises \<^verbatim>\<open>JSONDecodeError\<close>.
\<close>

fun stream_loop :: "(string \<Rightarrow> json option) \<Rightarrow> chunk list \<Rightarrow> run" where
  "stream_loop loads [] = ([], Finished)"
| "stream_loop loads (ReadError e # rest) = ([], Raised e)"
| "stream_loop loads (Undecodable # rest) = ([], Raised UnicodeDecodeError)"
| "stream_loop loads (Line line # rest) =
     (if line = [] then stream_loop loads rest
      else if \<not> prefix ''data: '' line then stream_loop loads rest
      else
        let data = drop 6 line in
        if data = ''[DONE]'' then ([], Finished)
        else
          (case loads data of
             None \<Rightarrow>
               if data \<noteq> [] \<and> data \<noteq> ''[DONE]''
               then yield [JStr data] (stream_loop loads rest)
               else stream_loop loads rest
           | Some json_data \<Rightarrow>
               (case event_fragments json_data of
                  (ys, Some e) \<Rightarrow> (ys, Raised e)
                | (ys, None) \<Rightarrow> yield ys (stream_loop loads rest))))"

text \<open>
  \<^verbatim>\<open>stream_response\<close>: the loop, and the handler of the outer \<^verbatim>\<open>try\<close>, which yields a notice
  and lets the generator end. \<open>str_e\<close> is Python's \<^verbatim>\<open>str\<close> of an exception.
\<close>

definition stream_response :: "(exn \<Rightarrow> string) \<Rightarrow> (string \<Rightarrow> json option) \<Rightarrow> response \<Rightarrow> run" where
  "stream_response str_e loads resp =
     (case stream_loop loads (iter_lines resp) of
        (ys, Finished) \<Rightarrow> (ys, Finished)
      | (ys, Raised e) \<Rightarrow>
          (ys @ [JStr ([CHR 0x0A, CHR 0x0A] @ ''Error during streaming: '' @ str_e e)], Finished))"


subsection \<open>The entry point\<close>

text \<open>The three \<^verbatim>\<open>except\<close> clauses of \<^verbatim>\<open>pipe\<close> (lines 232 to 237), in their order.\<close>

definition cf_except :: "(exn \<Rightarrow> string) \<Rightarrow> exn \<Rightarrow> json" where
  "cf_except str_e e =
     (if e = Timeout then JStr ''Error: Request to Cloudflare Workers AI timed out.''
      else if is_RequestException e
      then JStr (''Error: Failed to connect to Cloudflare Workers AI: '' @ str_e e)
      else JStr (''Error: '' @ str_e e))"

definition status_error :: "response \<Rightarrow> json" where
  "status_error resp =
     JStr (''Error: Cloudflare API returned status '' @ str_nat (status_code resp) @ '': ''
           @ text_of resp)"

text \<open>
  Lines 127 to 166 of \<^verbatim>\<open>pipe\<close>: the model id, the headers, the URL and the payload, as the call
  that the non-streaming branch passes to \<^verbatim>\<open>requests.post\<close>.
\<close>

definition cf_request :: "cf_valves \<Rightarrow> body \<Rightarrow> call" where
  "cf_request valves b =
     (let model_id0 = (case model b of None \<Rightarrow> [] | Some m \<Rightarrow> m);
          msgs = (case messages b of None \<Rightarrow> [] | Some ms \<Rightarrow> ms);
          model_id = (if CHR ''.'' \<in> set model_id0 then split1 CHR ''.'' model_id0 ! 1
                      else model_id0);
          cf_model_name = get_cloudflare_model_name model_id;
          hdrs = [(''Authorization'', ''Bearer '' @ CLOUDFLARE_API_KEY valves),
                  (''Content-Type'', ''application/json'')];
          target =
            (if uses_responses_endpoint cf_model_name then
               (BASE_URL valves @ ''/'' @ CLOUDFLARE_ACCOUNT_ID valves @ ''/ai/v1/responses'',
                \<lparr>p_model = Some cf_model_name, p_messages = None,
                 p_input = Some (messages_to_input msgs), p_params = [], p_stream = None\<rparr>)
             else
               (BASE_URL valves @ ''/'' @ CLOUDFLARE_ACCOUNT_ID valves @ ''/ai/run/''
                  @ cf_model_name,
                \<lparr>p_model = None, p_messages = Some msgs,
                 p_input = None, p_params = [], p_stream = None\<rparr>));
          pl = (snd target)\<lparr>p_params := copy_params [''temperature'', ''max_tokens'', ''top_p''] b\<rparr>
      in \<lparr>url = fst target, headers = hdrs, json_arg = pl,
          stream_arg = False, timeout_arg = Some 120\<rparr>)"

text \<open>
  \<^verbatim>\<open>pipe\<close> of the Cloudflare module, with the result and the calls of \<^verbatim>\<open>requests.post\<close> it
  made before returning. The local variable \<^verbatim>\<open>stream\<close> is the constant \<^verbatim>\<open>False\<close> of line 170;
  the branch under it sets \<^verbatim>\<open>payload["stream"]\<close> and passes \<^verbatim>\<open>stream=True\<close>.
\<close>

definition cf_pipe ::
  "(string list \<Rightarrow> string) \<Rightarrow> (exn \<Rightarrow> string) \<Rightarrow> (string \<Rightarrow> json option) \<Rightarrow> transport
     \<Rightarrow> cf_valves \<Rightarrow> body \<Rightarrow> pipe_result \<times> call list" where
  "cf_pipe str_list str_e loads post valves b =
     (if CLOUDFLARE_API_KEY valves = [] then
        (Returned (JStr
           ''Error: Cloudflare API Key is not set. Please configure it in the valve settings.''), [])
      else if CLOUDFLARE_ACCOUNT_ID valves = [] then
        (Returned (JStr
           ''Error: Cloudflare Account ID is not set. Please configure it in the valve settings.''), [])
      else
        let c = cf_request valves b;
            stream_flag = False
        in
          if stream_flag then
            let cs = c\<lparr>json_arg := (json_arg c)\<lparr>p_stream := Some (JBool True)\<rparr>,
                       stream_arg := True\<rparr>
            in (case post cs of
                  Inl e \<Rightarrow> (Returned (cf_except str_e e), [cs])
                | Inr resp \<Rightarrow>
                    if status_code resp \<noteq> 200 then (Returned (status_error resp), [cs])
                    else (Generator (stream_response str_e loads resp) [], [cs]))
          else
            (case post c of
               Inl e \<Rightarrow> (Returned (cf_except str_e e), [c])
             | Inr resp \<Rightarrow>
                 if status_code resp \<noteq> 200 then (Returned (status_error resp), [c])
                 else
                   (case json_of resp of
                      Inl e \<Rightarrow> (Returned (cf_except str_e e), [c])
                    | Inr result \<Rightarrow>
                        (case extract_text str_list result of
                           Inl e \<Rightarrow> (Returned (cf_except str_e e), [c])
                         | Inr v \<Rightarrow> (Returned v, [c])))))"

section \<open>deepseek\_pipe.py, mistral\_pipe.py, perplexity\_pipe.py, xai\_pipe.py\<close>

text \<open>
  The four modules are the same program up to the constants collected here: the prefix of the
  names of the two valves, the pipe's \<^verbatim>\<open>id\<close>, the provider's name in the messages, the default
  model and the optional keys copied from the body.
\<close>

record provider =
  valve_prefix :: string
  pipe_id :: string
  api_name :: string
  default_model :: string
  optional_keys :: "string list"

definition deepseek :: provider where
  "deepseek = \<lparr>valve_prefix = ''DEEPSEEK'', pipe_id = ''deepseek'', api_name = ''DeepSeek'',
     default_model = ''deepseek-chat'',
     optional_keys = [''temperature'', ''max_tokens'', ''top_p'', ''frequency_penalty'',
                      ''presence_penalty'', ''stop'']\<rparr>"

definition mistral :: provider where
  "mistral = \<lparr>valve_prefix = ''MISTRAL'', pipe_id = ''mistral'', api_name = ''Mistral'',
     default_model = ''mistral-large-latest'',
     optional_keys = [''temperature'', ''max_tokens'', ''top_p'', ''min_tokens'', ''stop'',
                      ''random_seed'', ''safe_prompt'']\<rparr>"

definition perplexity :: provider where
  "perplexity = \<lparr>valve_prefix = ''PERPLEXITY'', pipe_id = ''perplexity'',
     api_name = ''Perplexity'', default_model = ''sonar'',
     optional_keys = [''temperature'', ''max_tokens'', ''top_p'', ''top_k'',
                      ''frequency_penalty'', ''presence_penalty'']\<rparr>"

definition xai :: provider where
  "xai = \<lparr>valve_prefix = ''XAI'', pipe_id = ''xai'', api_name = ''x.AI'',
     default_model = ''grok-3'',
     optional_keys = [''temperature'', ''max_tokens'', ''top_p'', ''frequency_penalty'',
                      ''presence_penalty'', ''stop'']\<rparr>"

text \<open>The valves \<^verbatim>\<open>X_API_KEY\<close> and \<^verbatim>\<open>X_API_BASE_URL\<close>.\<close>

record valves =
  API_KEY :: string
  API_BASE_URL :: string

text \<open>
  The text that \<^verbatim>\<open>_handle_non_stream\<close> returns for the parsed body \<open>data\<close> (its last four
  lines).
\<close>

definition choices_text :: "provider \<Rightarrow> json \<Rightarrow> exn + json" where
  "choices_text P data =
     (case py_in ''choices'' data of
        Inl e \<Rightarrow> Inl e
      | Inr has_choices \<Rightarrow>
          if has_choices then
            (case getitem data ''choices'' of
               Inl e \<Rightarrow> Inl e
             | Inr choices \<Rightarrow>
                 (case py_len choices of
                    Inl e \<Rightarrow> Inl e
                  | Inr n \<Rightarrow>
                      if n > 0 then
                        (case getitem0 choices of
                           Inl e \<Rightarrow> Inl e
                         | Inr first \<Rightarrow>
                             (case getitem first ''message'' of
                                Inl e \<Rightarrow> Inl e
                              | Inr msg \<Rightarrow> getitem msg ''content''))
                      else Inr (JStr (''Error: No response from '' @ api_name P @ '' API''))))
          else Inr (JStr (''Error: No response from '' @ api_name P @ '' API'')))"

text \<open>\<^verbatim>\<open>_handle_non_stream\<close>: the value returned or the exception raised, and the call made.\<close>

definition handle_non_stream ::
  "provider \<Rightarrow> transport \<Rightarrow> string \<Rightarrow> (string \<times> string) list \<Rightarrow> payload
     \<Rightarrow> (exn + json) \<times> call list" where
  "handle_non_stream P post u hdrs pl =
     (let c = \<lparr>url = u, headers = hdrs, json_arg = pl, stream_arg = False, timeout_arg = None\<rparr>
      in ((case post c of
             Inl e \<Rightarrow> Inl e
           | Inr resp \<Rightarrow>
               (case raise_for_status resp of
                  Some e \<Rightarrow> Inl e
                | None \<Rightarrow>
                    (case json_of resp of
                       Inl e \<Rightarrow> Inl e
                     | Inr data \<Rightarrow> choices_text P data))), [c]))"

text \<open>
  What one parsed event makes \<^verbatim>\<open>_handle_stream\<close> yield (the lines between \<^verbatim>\<open>json.loads\<close> and
  the \<^verbatim>\<open>except\<close>): at most one value, from the first choice only.
\<close>

definition delta_content :: "json \<Rightarrow> exn + json option" where
  "delta_content data =
     (case py_in ''choices'' data of
        Inl e \<Rightarrow> Inl e
      | Inr has_choices \<Rightarrow>
          if has_choices then
            (case getitem data ''choices'' of
               Inl e \<Rightarrow> Inl e
             | Inr choices \<Rightarrow>
                 (case py_len choices of
                    Inl e \<Rightarrow> Inl e
                  | Inr n \<Rightarrow>
                      if n > 0 then
                        (case getitem0 choices of
                           Inl e \<Rightarrow> Inl e
                         | Inr first \<Rightarrow>
                             (case get first ''delta'' (JDict []) of
                                Inl e \<Rightarrow> Inl e
                              | Inr delta \<Rightarrow>
                                  (case py_in ''content'' delta of
                                     Inl e \<Rightarrow> Inl e
                                   | Inr has_content \<Rightarrow>
                                       if has_content
                                       then map_sum id Some (getitem delta ''content'')
                                       else Inr None)))
                      else Inr None))
          else Inr None)"

text \<open>The \<^verbatim>\<open>for\<close> loop of \<^verbatim>\<open>_handle_stream\<close>; no \<^verbatim>\<open>try\<close> surrounds it.\<close>

fun handle_stream_loop :: "(string \<Rightarrow> json option) \<Rightarrow> chunk list \<Rightarrow> run" where
  "handle_stream_loop loads [] = ([], Finished)"
| "handle_stream_loop loads (ReadError e # rest) = ([], Raised e)"
| "handle_stream_loop loads (Undecodable # rest) = ([], Raised UnicodeDecodeError)"
| "handle_stream_loop loads (Line line # rest) =
     (if line = [] then handle_stream_loop loads rest
      else if \<not> prefix ''data: '' line then handle_stream_loop loads rest
      else
        let data_str = drop 6 line in
        if strip data_str = ''[DONE]'' then ([], Finished)
        else
          (case loads data_str of
             None \<Rightarrow> handle_stream_loop loads rest
           | Some data \<Rightarrow>
               (case delta_content data of
                  Inl e \<Rightarrow> ([], Raised e)
                | Inr None \<Rightarrow> handle_stream_loop loads rest
                | Inr (Some v) \<Rightarrow> yield [v] (handle_stream_loop loads rest))))"

text \<open>
  \<^verbatim>\<open>_handle_stream\<close> is a generator function: calling it runs nothing. Its body, the request
  included, runs when the host pulls from the generator; this is that run and the call made.
\<close>

definition handle_stream ::
  "(string \<Rightarrow> json option) \<Rightarrow> transport \<Rightarrow> string \<Rightarrow> (string \<times> string) list \<Rightarrow> payload
     \<Rightarrow> run \<times> call list" where
  "handle_stream loads post u hdrs pl =
     (let c = \<lparr>url = u, headers = hdrs, json_arg = pl, stream_arg = True, timeout_arg = None\<rparr>
      in ((case post c of
             Inl e \<Rightarrow> ([], Raised e)
           | Inr resp \<Rightarrow>
               (case raise_for_status resp of
                  Some e \<Rightarrow> ([], Raised e)
                | None \<Rightarrow> handle_stream_loop loads (iter_lines resp))), [c]))"

text \<open>
  \<^verbatim>\<open>pipe\<close>. The \<^verbatim>\<open>try\<close> encloses both branches, but on the streaming branch the statement
  inside it only creates the generator, so its handlers see nothing of what the generator does.
\<close>

definition pipe ::
  "provider \<Rightarrow> (exn \<Rightarrow> string) \<Rightarrow> (string \<Rightarrow> json option) \<Rightarrow> transport
     \<Rightarrow> valves \<Rightarrow> body \<Rightarrow> pipe_result \<times> call list" where
  "pipe P str_e loads post vs b =
     (if API_KEY vs = [] then
        (Returned (JStr (''Error: '' @ valve_prefix P
            @ ''_API_KEY is not set. Please configure it in the pipe settings.'')), [])
      else
        let hdrs = [(''Authorization'', ''Bearer '' @ API_KEY vs),
                    (''Content-Type'', ''application/json'')];
            model_id0 = (case model b of None \<Rightarrow> default_model P | Some m \<Rightarrow> m);
            model_id = (if prefix (pipe_id P @ ''.'') model_id0
                        then replace (pipe_id P @ ''.'') [] model_id0
                        else model_id0);
            stream_flag = (case stream b of None \<Rightarrow> JBool False | Some v \<Rightarrow> v);
            pl = \<lparr>p_model = Some model_id,
                  p_messages = Some (case messages b of None \<Rightarrow> [] | Some ms \<Rightarrow> ms),
                  p_input = None,
                  p_params = copy_params (optional_keys P) b,
                  p_stream = Some stream_flag\<rparr>;
            u = API_BASE_URL vs @ ''/chat/completions''
        in
          if truthy stream_flag then
            (Generator (fst (handle_stream loads post u hdrs pl))
                       (snd (handle_stream loads post u hdrs pl)), [])
          else
            (case handle_non_stream P post u hdrs pl of
               (Inr v, cs) \<Rightarrow> (Returned v, cs)
             | (Inl e, cs) \<Rightarrow>
                 if is_RequestException e
                 then (Returned (JStr (''Error: Failed to connect to '' @ api_name P @ '' API - ''
                                       @ str_e e)), cs)
                 else (Returned (JStr (''Error: '' @ str_e e)), cs)))"


section \<open>The specification's wording\<close>

text \<open>
  The flattening rule as the specification words it: a message is rendered with the
  capitalized label of its role when the role is one of system, user and assistant, and as
  its raw content otherwise. The label is computed from the role, not listed.
\<close>

definition capitalized :: "string \<Rightarrow> string" where
  "capitalized s =
     (case s of
        [] \<Rightarrow> []
      | c # cs \<Rightarrow>
          (case map_of (zip ''abcdefghijklmnopqrstuvwxyz'' ''ABCDEFGHIJKLMNOPQRSTUVWXYZ'') c of
             None \<Rightarrow> c
           | Some u \<Rightarrow> u) # cs)"

definition labelled :: "message \<Rightarrow> string" where
  "labelled msg =
     (let r = (case role msg of None \<Rightarrow> ''user'' | Some r \<Rightarrow> r);
          c = (case content msg of None \<Rightarrow> [] | Some c \<Rightarrow> c)
      in if r \<in> {''system'', ''user'', ''assistant''} then capitalized r @ '': '' @ c else c)"

text \<open>
  The smallest values of the response shapes the specification names, for the examples. A
  streamed chunk of the OpenAI-compatible shape carries its text in
  \<^verbatim>\<open>choices[].delta.content\<close>, the complete response in \<^verbatim>\<open>choices[].message.content\<close>; a streamed
  event of Workers AI carries it in \<^verbatim>\<open>response\<close>, the complete response in \<^verbatim>\<open>result.response\<close>.
\<close>

definition delta_chunk :: "string \<Rightarrow> json" where
  "delta_chunk c = JDict [(''choices'', JList [JDict [(''delta'', JDict [(''content'', JStr c)])]])]"

definition complete_response :: "string \<Rightarrow> json" where
  "complete_response t =
     JDict [(''choices'', JList [JDict [(''message'', JDict [(''content'', JStr t)])]])]"

definition response_event :: "string \<Rightarrow> json" where
  "response_event c = JDict [(''response'', JStr c)]"

definition result_response :: "string \<Rightarrow> json" where
  "result_response t = JDict [(''result'', JDict [(''response'', JStr t)])]"


text \<open>The server-sent-event lines that carry the given payloads.\<close>

definition data_lines :: "string list \<Rightarrow> chunk list" where
  "data_lines ds = map (\<lambda>d. Line (''data: '' @ d)) ds"

text \<open>
  The content that an element of \<^verbatim>\<open>choices\<close> contributes, in the specification's words: the
  content of its \<^verbatim>\<open>delta\<close> field when that content is not empty.
\<close>

definition nonempty_content :: "json \<Rightarrow> json option" where
  "nonempty_content choice =
     (case choice of
        JDict kvs \<Rightarrow>
          (case map_of kvs ''delta'' of
             Some (JDict d) \<Rightarrow>
               (case map_of d ''content'' of
                  Some c \<Rightarrow> if truthy c then Some c else None
                | None \<Rightarrow> None)
           | _ \<Rightarrow> None)
      | _ \<Rightarrow> None)"

text \<open>An element of \<^verbatim>\<open>choices\<close> of the expected types: an object whose \<^verbatim>\<open>delta\<close>, if any, is an object.\<close>

definition choice_object :: "json \<Rightarrow> bool" where
  "choice_object choice =
     (case choice of
        JDict kvs \<Rightarrow>
          (case map_of kvs ''delta'' of
             None \<Rightarrow> True
           | Some (JDict d) \<Rightarrow> True
           | Some _ \<Rightarrow> False)
      | _ \<Rightarrow> False)"













text \<open>
  Every call of \<^verbatim>\<open>requests.post\<close> that an invocation causes: those made before \<^verbatim>\<open>pipe\<close>
  returns and those made while the host consumes the generator it returned.
\<close>

fun outbound :: "pipe_result \<times> call list \<Rightarrow> call list" where
  "outbound (Returned v, cs) = cs"
| "outbound (Generator r gcs, cs) = cs @ gcs"

section \<open>Data of the examples\<close>

text \<open>
  \<^verbatim>\<open>json.loads\<close> on the JSON texts that the examples below use. On the other two payloads of
  the examples, \<^verbatim>\<open>oops\<close> and the empty text, \<^verbatim>\<open>json.loads\<close> raises, and the table has no entry.
\<close>

definition sample_loads :: "string \<Rightarrow> json option" where
  "sample_loads =
     map_of
      [(''{\"choices\": [{\"delta\": {\"content\": \"Hel\"}}]}'', delta_chunk ''Hel''),
       (''{\"choices\": [{\"delta\": {\"content\": \"lo\"}}]}'', delta_chunk ''lo''),
       (''{\"choices\": [{\"delta\": {\"content\": \"\"}}, {\"delta\": {\"content\": \"B\"}}]}'',
        JDict [(''choices'',
                JList [JDict [(''delta'', JDict [(''content'', JStr [])])],
                       JDict [(''delta'', JDict [(''content'', JStr ''B'')])]])]),
       (''{\"response\": \"Hel\"}'', response_event ''Hel''),
       (''{\"response\": \"lo\"}'', response_event ''lo''),
       (''{\"id\": \"c1\", \"choices\": [{\"index\": 0, \"delta\": {\"role\": \"assistant\", \"content\": \"Hel\"}, \"finish_reason\": null}]}'',
        JDict [(''id'', JStr ''c1''),
               (''choices'',
                JList [JDict [(''index'', JInt 0),
                              (''delta'', JDict [(''role'', JStr ''assistant''),
                                                 (''content'', JStr ''Hel'')]),
                              (''finish_reason'', JNone)]])]),
       (''{\"id\": \"c1\", \"choices\": [{\"index\": 0, \"delta\": {}, \"finish_reason\": \"stop\"}]}'',
        JDict [(''id'', JStr ''c1''),
               (''choices'',
                JList [JDict [(''index'', JInt 0), (''delta'', JDict []),
                              (''finish_reason'', JStr ''stop'')]])]),
       (''{\"response\": \"lo\", \"p\": \"abcdefg\"}'',
        JDict [(''response'', JStr ''lo''), (''p'', JStr ''abcdefg'')])]"

text \<open>A response with status 200 whose body is read line by line.\<close>

definition streamed :: "chunk list \<Rightarrow> response" where
  "streamed ls = \<lparr>status_code = 200, text_of = [], json_of = Inl RequestException, iter_lines = ls\<rparr>"

text \<open>A response with the given status whose body \<open>t\<close> parses to \<open>j\<close>.\<close>

definition json_response :: "nat \<Rightarrow> string \<Rightarrow> json \<Rightarrow> response" where
  "json_response st t j = \<lparr>status_code = st, text_of = t, json_of = Inr j, iter_lines = [Line t]\<rparr>"

definition sample_valves :: valves where
  "sample_valves = \<lparr>API_KEY = ''sk-test'', API_BASE_URL = ''https://api.deepseek.com/v1''\<rparr>"

definition sample_cf_valves :: cf_valves where
  "sample_cf_valves =
     \<lparr>CLOUDFLARE_API_KEY = ''cf-token'', CLOUDFLARE_ACCOUNT_ID = ''acct'',
      BASE_URL = ''https://api.cloudflare.com/client/v4/accounts''\<rparr>"

text \<open>The request of the specification's example, with the model and the stream flag to fill in.\<close>

definition sample_body :: "string option \<Rightarrow> json option \<Rightarrow> body" where
  "sample_body m s =
     \<lparr>model = m, messages = Some [\<lparr>role = Some ''user'', content = Some ''hi''\<rparr>],
      stream = s, params = (\<lambda>k. None)\<rparr>"

section \<open>Properties\<close>

subsection \<open>Flattening the messages\<close>

lemma capitalized_roles:
  "capitalized ''system'' = ''System''"
  "capitalized ''user'' = ''User''"
  "capitalized ''assistant'' = ''Assistant''"
  by (simp_all add: capitalized_def)

lemma input_part_labelled: "input_part = labelled"
  by (rule ext) (simp add: input_part_def labelled_def Let_def capitalized_roles)

text \<open>
  Claim C7. \<^verbatim>\<open>messages_to_input\<close> returns the content of the message when the list has exactly
  one; otherwise it joins, in order and separated by a blank line, the messages rendered as
  "Role: content" with the capitalized role for system, user and assistant and as the raw
  content for any other role. The three messages of the specification's example flatten to
  the text it gives.
\<close>

theorem messages_to_input_flattens:
  "(length msgs = 1 \<longrightarrow>
      messages_to_input msgs = (case content (hd msgs) of None \<Rightarrow> [] | Some c \<Rightarrow> c))
   \<and> (length msgs \<noteq> 1 \<longrightarrow>
      messages_to_input msgs = join [CHR 0x0A, CHR 0x0A] (map labelled msgs))
   \<and> messages_to_input
        [\<lparr>role = Some ''system'', content = Some ''be terse''\<rparr>,
         \<lparr>role = Some ''user'', content = Some ''2+2?''\<rparr>,
         \<lparr>role = Some ''assistant'', content = Some ''4''\<rparr>]
      = ''System: be terse'' @ [CHR 0x0A, CHR 0x0A] @ ''User: 2+2?'' @ [CHR 0x0A, CHR 0x0A]
        @ ''Assistant: 4''"
proof (intro conjI impI)
  assume "length msgs = 1"
  then show "messages_to_input msgs = (case content (hd msgs) of None \<Rightarrow> [] | Some c \<Rightarrow> c)"
    by (cases msgs) (auto simp: messages_to_input_def)
next
  assume "length msgs \<noteq> 1"
  then show "messages_to_input msgs = join [CHR 0x0A, CHR 0x0A] (map labelled msgs)"
    by (cases msgs) (auto simp: messages_to_input_def input_part_labelled)
next
  show "messages_to_input
        [\<lparr>role = Some ''system'', content = Some ''be terse''\<rparr>,
         \<lparr>role = Some ''user'', content = Some ''2+2?''\<rparr>,
         \<lparr>role = Some ''assistant'', content = Some ''4''\<rparr>]
      = ''System: be terse'' @ [CHR 0x0A, CHR 0x0A] @ ''User: 2+2?'' @ [CHR 0x0A, CHR 0x0A]
        @ ''Assistant: 4''"
    by (simp add: messages_to_input_def input_part_def)
qed

theorem messages_to_input_flattens_witness:
  "messages_to_input [\<lparr>role = Some ''user'', content = Some ''hi''\<rparr>] = ''hi''
   \<and> messages_to_input
        [\<lparr>role = Some ''tool'', content = Some ''42''\<rparr>,
         \<lparr>role = Some ''user'', content = Some ''ok''\<rparr>]
      = ''42'' @ [CHR 0x0A, CHR 0x0A] @ ''User: ok''"
  using messages_to_input_flattens [of "[\<lparr>role = Some ''user'', content = Some ''hi''\<rparr>]"]
        messages_to_input_flattens [of "[\<lparr>role = Some ''tool'', content = Some ''42''\<rparr>,
         \<lparr>role = Some ''user'', content = Some ''ok''\<rparr>]"]
  by (simp add: labelled_def capitalized_roles)


subsection \<open>The stream decoders, line by line\<close>

lemmas strip_eval = strip_def whitespace_def strip_front.simps

lemma yield_Nil [simp]: "yield [] r = r"
  by (simp add: yield_def)

lemma yield_yield [simp]: "yield xs (yield ys r) = yield (xs @ ys) r"
  by (simp add: yield_def)

lemma stream_loop_done:
  "stream_loop loads (pre @ Line ''data: [DONE]'' # rest) = stream_loop loads pre"
proof (induction pre)
  case Nil
  show ?case by simp
next
  case (Cons x pre)
  show ?case
  proof (cases x)
    case (Line l)
    with Cons show ?thesis
      by (simp add: Let_def split: option.split prod.split)
  qed simp_all
qed

lemma handle_stream_loop_done:
  "strip d = ''[DONE]'' \<Longrightarrow>
   handle_stream_loop loads (pre @ Line (''data: '' @ d) # rest) = handle_stream_loop loads pre"
proof (induction pre)
  case Nil
  then show ?case by simp
next
  case (Cons x pre)
  show ?case
  proof (cases x)
    case (Line l)
    with Cons show ?thesis
      by (simp add: Let_def split: option.split sum.split)
  qed simp_all
qed

text \<open>
  Claim C4. Once a decoder meets a line whose payload after \<^verbatim>\<open>data: \<close> is \<^verbatim>\<open>[DONE]\<close> (for the
  OpenAI-style decoders: after \<^verbatim>\<open>strip()\<close>), the run of the generator is the run over the lines
  that came before: nothing more is yielded, whatever lines follow.
\<close>

theorem done_ends_the_stream:
  "stream_response str_e loads (resp\<lparr>iter_lines := pre @ Line ''data: [DONE]'' # rest\<rparr>)
     = stream_response str_e loads (resp\<lparr>iter_lines := pre\<rparr>)
   \<and> (strip d = ''[DONE]'' \<longrightarrow>
        handle_stream loads (\<lambda>c. Inr (resp\<lparr>iter_lines := pre @ Line (''data: '' @ d) # rest\<rparr>)) u hdrs pl
          = handle_stream loads (\<lambda>c. Inr (resp\<lparr>iter_lines := pre\<rparr>)) u hdrs pl)"
  using handle_stream_loop_done [of d loads pre rest]
  by (simp add: stream_response_def handle_stream_def raise_for_status_def stream_loop_done)

theorem done_ends_the_stream_witness:
  "strip ''[DONE] '' = ''[DONE]''
   \<and> handle_stream
        (map_of [(''{\"choices\": [{\"delta\": {\"content\": \"Hel\"}}]}'',
                  JDict [(''choices'', JList [JDict [(''delta'', JDict [(''content'', JStr ''Hel'')])]])]),
                 (''{\"choices\": [{\"delta\": {\"content\": \"lo\"}}]}'',
                  JDict [(''choices'', JList [JDict [(''delta'', JDict [(''content'', JStr ''lo'')])]])])])
        (\<lambda>c. Inr \<lparr>status_code = 200, text_of = [], json_of = Inl RequestException,
                   iter_lines =
                     [Line ''data: {\"choices\": [{\"delta\": {\"content\": \"Hel\"}}]}'',
                      Line ''data: [DONE] '',
                      Line ''data: {\"choices\": [{\"delta\": {\"content\": \"lo\"}}]}'']\<rparr>)
        ''https://api.deepseek.com/v1/chat/completions'' []
        \<lparr>p_model = Some ''deepseek-chat'', p_messages = Some [], p_input = None,
         p_params = [], p_stream = Some (JBool True)\<rparr>
     = (([JStr ''Hel''], Finished),
        [\<lparr>url = ''https://api.deepseek.com/v1/chat/completions'', headers = [],
          json_arg = \<lparr>p_model = Some ''deepseek-chat'', p_messages = Some [], p_input = None,
                      p_params = [], p_stream = Some (JBool True)\<rparr>,
          stream_arg = True, timeout_arg = None\<rparr>])"
proof -
  have e: "strip ''[DONE] '' = ''[DONE]''"
    by (simp add: strip_eval)
  show ?thesis
    using e done_ends_the_stream
      [where resp = "\<lparr>status_code = 200, text_of = [], json_of = Inl RequestException,
                       iter_lines = []\<rparr>"
         and pre = "[Line ''data: {\"choices\": [{\"delta\": {\"content\": \"Hel\"}}]}'']"
         and rest = "[Line ''data: {\"choices\": [{\"delta\": {\"content\": \"lo\"}}]}'']"
         and d = "''[DONE] ''"]
    by (simp add: handle_stream_def raise_for_status_def delta_content_def strip_eval yield_def)
qed

lemma stream_response_yield:
  "stream_response str_e loads (resp\<lparr>iter_lines := ls\<rparr>) = yield ys (stream_response str_e loads (resp\<lparr>iter_lines := ls'\<rparr>))"
  if "stream_loop loads ls = yield ys (stream_loop loads ls')"
  using that by (simp add: stream_response_def yield_def split: prod.split ending.split)

text \<open>
  Claim C2, amended. A \<^verbatim>\<open>data: \<close> line whose payload is not valid JSON, not empty and not
  \<^verbatim>\<open>[DONE]\<close> makes \<^verbatim>\<open>stream_response\<close> of the Cloudflare module yield the raw payload as one
  fragment and go on with the next line. The same line makes \<^verbatim>\<open>_handle_stream\<close> of the
  OpenAI-style modules yield nothing and go on with the next line: it neither ends the
  sequence nor yields a notice.
\<close>

theorem malformed_data_line:
  "(loads d = None \<and> d \<noteq> [] \<and> d \<noteq> ''[DONE]'' \<longrightarrow>
      stream_response str_e loads (resp\<lparr>iter_lines := Line (''data: '' @ d) # rest\<rparr>)
        = yield [JStr d] (stream_response str_e loads (resp\<lparr>iter_lines := rest\<rparr>)))
   \<and> (loads d = None \<and> strip d \<noteq> ''[DONE]'' \<longrightarrow>
      handle_stream loads (\<lambda>c. Inr (resp\<lparr>iter_lines := Line (''data: '' @ d) # rest\<rparr>)) u hdrs pl
        = handle_stream loads (\<lambda>c. Inr (resp\<lparr>iter_lines := rest\<rparr>)) u hdrs pl)"
proof (intro conjI impI)
  assume a: "loads d = None \<and> d \<noteq> [] \<and> d \<noteq> ''[DONE]''"
  then have "stream_loop loads (Line (''data: '' @ d) # rest) = yield [JStr d] (stream_loop loads rest)"
    by simp
  then show "stream_response str_e loads (resp\<lparr>iter_lines := Line (''data: '' @ d) # rest\<rparr>)
        = yield [JStr d] (stream_response str_e loads (resp\<lparr>iter_lines := rest\<rparr>))"
    by (rule stream_response_yield)
next
  assume "loads d = None \<and> strip d \<noteq> ''[DONE]''"
  then show "handle_stream loads (\<lambda>c. Inr (resp\<lparr>iter_lines := Line (''data: '' @ d) # rest\<rparr>)) u hdrs pl
        = handle_stream loads (\<lambda>c. Inr (resp\<lparr>iter_lines := rest\<rparr>)) u hdrs pl"
    by (simp add: handle_stream_def raise_for_status_def)
qed

text \<open>
  The claim as stated fails twice: \<^verbatim>\<open>_handle_stream\<close> skips the malformed line and still decodes
  the line after it, and \<^verbatim>\<open>stream_response\<close> yields nothing for a payload that is empty.
\<close>

theorem malformed_data_line_counterexample:
  "handle_stream_loop sample_loads
     (data_lines [''oops'', ''{\"choices\": [{\"delta\": {\"content\": \"Hel\"}}]}''])
     = ([JStr ''Hel''], Finished)
   \<and> stream_loop sample_loads (data_lines ['''']) = ([], Finished)"
  by (simp add: data_lines_def sample_loads_def delta_chunk_def delta_content_def strip_eval yield_def)

theorem malformed_data_line_witness:
  "stream_response (\<lambda>e. ''read failed'') sample_loads
     (streamed (data_lines [''oops'', ''{\"response\": \"Hel\"}'']))
     = ([JStr ''oops'', JStr ''Hel''], Finished)
   \<and> handle_stream sample_loads
        (\<lambda>c. Inr (streamed (data_lines [''oops'', ''{\"choices\": [{\"delta\": {\"content\": \"Hel\"}}]}''])))
        ''https://api.deepseek.com/v1/chat/completions'' []
        \<lparr>p_model = Some ''deepseek-chat'', p_messages = Some [], p_input = None,
         p_params = [], p_stream = Some (JBool True)\<rparr>
     = (([JStr ''Hel''], Finished),
        [\<lparr>url = ''https://api.deepseek.com/v1/chat/completions'', headers = [],
          json_arg = \<lparr>p_model = Some ''deepseek-chat'', p_messages = Some [], p_input = None,
                      p_params = [], p_stream = Some (JBool True)\<rparr>,
          stream_arg = True, timeout_arg = None\<rparr>])"
proof -
  have n: "sample_loads ''oops'' = None"
    by (simp add: sample_loads_def)
  have s: "strip ''oops'' \<noteq> ''[DONE]''"
    by (simp add: strip_eval)
  show ?thesis
    using n s
      malformed_data_line
        [where loads = sample_loads and d = "''oops''" and resp = "streamed []"
           and rest = "data_lines [''{\"response\": \"Hel\"}'']"
           and str_e = "\<lambda>e. ''read failed''"]
      malformed_data_line
        [where loads = sample_loads and d = "''oops''" and resp = "streamed []"
           and rest = "data_lines [''{\"choices\": [{\"delta\": {\"content\": \"Hel\"}}]}'']"]
    by (simp add: streamed_def data_lines_def sample_loads_def delta_chunk_def response_event_def
          delta_content_def event_fragments_def stream_response_def handle_stream_def
          raise_for_status_def strip_eval yield_def)
qed

subsection \<open>Errors on the streaming path\<close>

text \<open>The generator of the Cloudflare module never raises: its handler turns every exception into a last fragment.\<close>

lemma stream_response_finishes: "snd (stream_response str_e loads resp) = Finished"
  by (simp add: stream_response_def split: prod.split ending.split)

text \<open>
  Claim C3 at its failing inputs. With a key set and \<^verbatim>\<open>stream\<close> true, \<^verbatim>\<open>pipe\<close> of the DeepSeek
  module returns a generator without having run anything; when the host pulls from it, a
  transport that fails, a response with status 500, and a read that fails after one fragment
  each end the generator with the exception raised to the host, and no notice is yielded.
\<close>

theorem stream_errors_reach_the_host:
  "pipe deepseek str_e loads (\<lambda>c. Inl RequestException) sample_valves
       (sample_body None (Some (JBool True)))
     = (Generator ([], Raised RequestException)
          [\<lparr>url = ''https://api.deepseek.com/v1/chat/completions'',
            headers = [(''Authorization'', ''Bearer sk-test''),
                       (''Content-Type'', ''application/json'')],
            json_arg = \<lparr>p_model = Some ''deepseek-chat'',
                         p_messages = Some [\<lparr>role = Some ''user'', content = Some ''hi''\<rparr>],
                         p_input = None, p_params = [], p_stream = Some (JBool True)\<rparr>,
            stream_arg = True, timeout_arg = None\<rparr>], [])
   \<and> fst (pipe deepseek str_e loads (\<lambda>c. Inr (json_response 500 ''Internal Server Error'' JNone))
            sample_valves (sample_body None (Some (JBool True))))
     = Generator ([], Raised HTTPError)
          [\<lparr>url = ''https://api.deepseek.com/v1/chat/completions'',
            headers = [(''Authorization'', ''Bearer sk-test''),
                       (''Content-Type'', ''application/json'')],
            json_arg = \<lparr>p_model = Some ''deepseek-chat'',
                         p_messages = Some [\<lparr>role = Some ''user'', content = Some ''hi''\<rparr>],
                         p_input = None, p_params = [], p_stream = Some (JBool True)\<rparr>,
            stream_arg = True, timeout_arg = None\<rparr>]
   \<and> (case fst (pipe deepseek str_e sample_loads
            (\<lambda>c. Inr (streamed [Line ''data: {\"choices\": [{\"delta\": {\"content\": \"Hel\"}}]}'',
                                  ReadError RequestException]))
            sample_valves (sample_body None (Some (JBool True)))) of
         Generator r cs \<Rightarrow> r = ([JStr ''Hel''], Raised RequestException)
       | Returned v \<Rightarrow> False)"
  by (simp add: pipe_def deepseek_def sample_valves_def sample_body_def handle_stream_def
        raise_for_status_def json_response_def streamed_def copy_params_def
        sample_loads_def delta_chunk_def delta_content_def strip_eval yield_def)


subsection \<open>Events with choices\<close>

lemma py_in_dict: "py_in k (JDict kvs) = Inr (map_of kvs k \<noteq> None)"
  by (simp add: map_of_eq_None_iff)

lemma nonempty_content_dict:
  "nonempty_content (JDict kvs) =
     (case map_of kvs ''delta'' of
        Some (JDict d) \<Rightarrow>
          (case map_of d ''content'' of
             Some c \<Rightarrow> if truthy c then Some c else None
           | None \<Rightarrow> None)
      | _ \<Rightarrow> None)"
  by (simp add: nonempty_content_def)

lemma choices_loop_objects:
  "\<forall>c \<in> set cs. choice_object c \<Longrightarrow>
   choices_loop cs = (List.map_filter nonempty_content cs, None)"
proof (induction cs)
  case Nil
  show ?case by simp
next
  case (Cons c cs)
  then have ih: "choices_loop cs = (List.map_filter nonempty_content cs, None)"
    by simp
  from Cons.prems obtain kvs where c: "c = JDict kvs"
    by (cases c) (auto simp: choice_object_def)
  show ?case
  proof (cases "map_of kvs ''delta''")
    case None
    with c ih show ?thesis
      by (simp add: py_in_dict nonempty_content_dict del: py_in.simps)
  next
    case (Some dv)
    with Cons.prems c obtain d where d: "dv = JDict d"
      by (cases dv) (auto simp: choice_object_def)
    with Some c ih show ?thesis
      by (simp add: py_in_dict nonempty_content_dict del: py_in.simps split: option.split)
  qed
qed

lemma choices_loop_truthy: "f \<in> set (fst (choices_loop cs)) \<Longrightarrow> truthy f"
  by (induction cs) (auto split: sum.splits if_splits)

lemma nonempty_content_truthy: "nonempty_content c = Some v \<Longrightarrow> truthy v"
  by (auto simp: nonempty_content_def split: json.splits option.splits if_splits)

lemma map_filter_nonempty: "JStr [] \<notin> set (List.map_filter nonempty_content cs)"
  by (induction cs) (auto split: option.splits dest: nonempty_content_truthy)

lemma event_fragments_choices:
  assumes "map_of kvs ''response'' = None" and "map_of kvs ''result'' = None"
    and "map_of kvs ''choices'' = Some (JList cs)" and "\<forall>c \<in> set cs. choice_object c"
  shows "event_fragments (JDict kvs) = (List.map_filter nonempty_content cs, None)"
  using assms
  by (simp add: event_fragments_def py_in_dict choices_loop_objects del: py_in.simps)

lemma delta_content_first:
  assumes ch: "map_of kvs ''choices'' = Some (JList (JDict fc # others))"
    and ob: "choice_object (JDict fc)"
  shows "delta_content (JDict kvs) =
           Inr (case map_of fc ''delta'' of
                  Some (JDict dl) \<Rightarrow> map_of dl ''content''
                | _ \<Rightarrow> None)"
proof (cases "map_of fc ''delta''")
  case None
  with ch show ?thesis
    by (simp add: delta_content_def py_in_dict del: py_in.simps)
next
  case (Some dv)
  with ob obtain dl where dl: "dv = JDict dl"
    by (cases dv) (auto simp: choice_object_def)
  show ?thesis
  proof (cases "map_of dl ''content''")
    case None
    with ch Some dl show ?thesis
      by (simp add: delta_content_def py_in_dict del: py_in.simps)
  next
    case (Some v)
    with ch \<open>map_of fc ''delta'' = Some dv\<close> dl show ?thesis
      by (simp add: delta_content_def py_in_dict del: py_in.simps)
  qed
qed

text \<open>
  Claim C5, amended. For a parsed event that is an object without the keys \<^verbatim>\<open>response\<close> and
  \<^verbatim>\<open>result\<close> and whose \<^verbatim>\<open>choices\<close> is a list of objects (their \<^verbatim>\<open>delta\<close>, where present, an
  object), \<^verbatim>\<open>stream_response\<close> of the Cloudflare module yields one fragment for every element
  whose delta has non-empty content, in order, and none of them is the empty string. The
  decoders of the OpenAI-style modules read the first element only and yield the content of
  its delta whenever the key is present, the empty string included.
\<close>

theorem choices_fragments:
  "(loads d = Some (JDict kvs) \<and> d \<noteq> ''[DONE]''
      \<and> map_of kvs ''response'' = None \<and> map_of kvs ''result'' = None
      \<and> map_of kvs ''choices'' = Some (JList cs) \<and> (\<forall>c \<in> set cs. choice_object c) \<longrightarrow>
      stream_response str_e loads (resp\<lparr>iter_lines := Line (''data: '' @ d) # rest\<rparr>)
        = yield (List.map_filter nonempty_content cs)
            (stream_response str_e loads (resp\<lparr>iter_lines := rest\<rparr>))
      \<and> JStr [] \<notin> set (List.map_filter nonempty_content cs))
   \<and> (loads d = Some (JDict kvs) \<and> strip d \<noteq> ''[DONE]''
      \<and> map_of kvs ''choices'' = Some (JList (JDict fc # others))
      \<and> choice_object (JDict fc) \<longrightarrow>
      handle_stream_loop loads (Line (''data: '' @ d) # rest)
        = yield (case map_of fc ''delta'' of
                   Some (JDict dl) \<Rightarrow>
                     (case map_of dl ''content'' of None \<Rightarrow> [] | Some v \<Rightarrow> [v])
                 | _ \<Rightarrow> [])
            (handle_stream_loop loads rest))"
proof (intro conjI impI)
  assume a: "loads d = Some (JDict kvs) \<and> d \<noteq> ''[DONE]''
      \<and> map_of kvs ''response'' = None \<and> map_of kvs ''result'' = None
      \<and> map_of kvs ''choices'' = Some (JList cs) \<and> (\<forall>c \<in> set cs. choice_object c)"
  then have "event_fragments (JDict kvs) = (List.map_filter nonempty_content cs, None)"
    by (simp add: event_fragments_choices)
  with a have "stream_loop loads (Line (''data: '' @ d) # rest)
      = yield (List.map_filter nonempty_content cs) (stream_loop loads rest)"
    by simp
  then show "stream_response str_e loads (resp\<lparr>iter_lines := Line (''data: '' @ d) # rest\<rparr>)
        = yield (List.map_filter nonempty_content cs)
            (stream_response str_e loads (resp\<lparr>iter_lines := rest\<rparr>))"
    by (rule stream_response_yield)
next
  show "JStr [] \<notin> set (List.map_filter nonempty_content cs)"
    by (rule map_filter_nonempty)
next
  assume a: "loads d = Some (JDict kvs) \<and> strip d \<noteq> ''[DONE]''
      \<and> map_of kvs ''choices'' = Some (JList (JDict fc # others))
      \<and> choice_object (JDict fc)"
  then have "delta_content (JDict kvs) =
           Inr (case map_of fc ''delta'' of
                  Some (JDict dl) \<Rightarrow> map_of dl ''content''
                | _ \<Rightarrow> None)"
    by (simp add: delta_content_first)
  with a show "handle_stream_loop loads (Line (''data: '' @ d) # rest)
        = yield (case map_of fc ''delta'' of
                   Some (JDict dl) \<Rightarrow>
                     (case map_of dl ''content'' of None \<Rightarrow> [] | Some v \<Rightarrow> [v])
                 | _ \<Rightarrow> [])
            (handle_stream_loop loads rest)"
    by (simp split: option.split json.split)
qed

text \<open>
  The claim as stated fails on \<^verbatim>\<open>_handle_stream\<close>: of two choices, the first with empty content
  and the second with content B, it yields the empty string and not B.
\<close>

theorem choices_fragments_counterexample:
  "handle_stream_loop sample_loads
     (data_lines [''{\"choices\": [{\"delta\": {\"content\": \"\"}}, {\"delta\": {\"content\": \"B\"}}]}''])
     = ([JStr []], Finished)"
  by (simp add: data_lines_def sample_loads_def delta_content_def strip_eval yield_def)

theorem choices_fragments_witness:
  "stream_response (\<lambda>e. ''read failed'') sample_loads
     (streamed (data_lines
        [''{\"choices\": [{\"delta\": {\"content\": \"\"}}, {\"delta\": {\"content\": \"B\"}}]}'']))
     = ([JStr ''B''], Finished)
   \<and> handle_stream_loop sample_loads
       (data_lines
         [''{\"choices\": [{\"delta\": {\"content\": \"\"}}, {\"delta\": {\"content\": \"B\"}}]}''])
     = ([JStr []], Finished)"
proof -
  let ?d = "''{\"choices\": [{\"delta\": {\"content\": \"\"}}, {\"delta\": {\"content\": \"B\"}}]}''"
  let ?ca = "[(''delta'', JDict [(''content'', JStr [])])]"
  let ?cb = "[(''delta'', JDict [(''content'', JStr ''B'')])]"
  let ?kvs = "[(''choices'', JList [JDict ?ca, JDict ?cb])]"
  have l: "sample_loads ?d = Some (JDict ?kvs)"
    by (simp add: sample_loads_def)
  have s: "strip ?d \<noteq> ''[DONE]''"
    by (simp add: strip_eval)
  have o: "\<forall>c \<in> set [JDict ?ca, JDict ?cb]. choice_object c"
    by (simp add: choice_object_def)
  show ?thesis
    using l s o
      choices_fragments
        [where loads = sample_loads and d = ?d and kvs = ?kvs and cs = "[JDict ?ca, JDict ?cb]"
           and fc = ?ca and others = "[JDict ?cb]" and resp = "streamed []" and rest = "[]"
           and str_e = "\<lambda>e. ''read failed''"]
    by (simp add: streamed_def data_lines_def stream_response_def nonempty_content_dict yield_def)
qed


subsection \<open>Streaming against the complete response\<close>















subsection \<open>The requests that the entry points send\<close>

lemma substring_prefix: "prefix p s \<Longrightarrow> substring p s"
  by (cases s) auto

lemma substring_infix: "substring p (xs @ p @ ys)"
proof (induction xs)
  case Nil
  show ?case by (simp add: substring_prefix)
next
  case (Cons x xs)
  then show ?case by simp
qed

lemma replace_absent: "old \<noteq> [] \<Longrightarrow> \<not> substring old s \<Longrightarrow> replace old new s = s"
  by (induction s) auto

lemma replace_own_prefix: "old \<noteq> [] \<Longrightarrow> replace old [] (old @ s) = replace old [] s"
  by (cases old) auto

lemma split1_first: "sep \<notin> set pre \<Longrightarrow> split1 sep (pre @ sep # suf) ! 1 = suf"
proof -
  assume "sep \<notin> set pre"
  then have "dropWhile (\<lambda>c. c \<noteq> sep) pre = []"
    by auto
  then show ?thesis
    by (simp add: split1_def dropWhile_append)
qed

lemma outbound_pipe:
  "API_KEY vs \<noteq> [] \<Longrightarrow>
   map (p_model \<circ> json_arg) (outbound (pipe P str_e loads post vs b)) =
     [Some (let m = (case model b of None \<Rightarrow> default_model P | Some m \<Rightarrow> m)
            in if prefix (pipe_id P @ ''.'') m then replace (pipe_id P @ ''.'') [] m else m)]"
  by (simp add: pipe_def Let_def handle_stream_def handle_non_stream_def
        split: sum.split prod.split)

lemma outbound_cf_pipe:
  "CLOUDFLARE_API_KEY v \<noteq> [] \<Longrightarrow> CLOUDFLARE_ACCOUNT_ID v \<noteq> [] \<Longrightarrow>
   outbound (cf_pipe sl se lo post v b) = [cf_request v b]"
  by (simp add: cf_pipe_def Let_def split: sum.split)

lemma cf_request_target:
  "url (cf_request v b) =
     (let m = (case model b of None \<Rightarrow> [] | Some m \<Rightarrow> m);
          n = get_cloudflare_model_name (if CHR ''.'' \<in> set m then split1 CHR ''.'' m ! 1 else m)
      in if uses_responses_endpoint n
         then BASE_URL v @ ''/'' @ CLOUDFLARE_ACCOUNT_ID v @ ''/ai/v1/responses''
         else BASE_URL v @ ''/'' @ CLOUDFLARE_ACCOUNT_ID v @ ''/ai/run/'' @ n)"
  "p_model (json_arg (cf_request v b)) =
     (let m = (case model b of None \<Rightarrow> [] | Some m \<Rightarrow> m);
          n = get_cloudflare_model_name (if CHR ''.'' \<in> set m then split1 CHR ''.'' m ! 1 else m)
      in if uses_responses_endpoint n then Some n else None)"
  by (simp_all add: cf_request_def Let_def)

lemma cf_request_no_stream:
  "\<not> stream_arg (cf_request v b)" "p_stream (json_arg (cf_request v b)) = None"
  by (simp_all add: cf_request_def Let_def)

lemma cf_request_stream_ignored: "cf_request v (b\<lparr>stream := s\<rparr>) = cf_request v b"
  by (simp add: cf_request_def copy_params_def)

text \<open>
  Claim C10. With a key set and no \<^verbatim>\<open>model\<close> in the body, \<^verbatim>\<open>pipe\<close> of each OpenAI-style module
  sends exactly one request, on the streaming branch as on the other, and the \<^verbatim>\<open>model\<close> of its
  payload is the module's default: \<^verbatim>\<open>deepseek-chat\<close>, \<^verbatim>\<open>mistral-large-latest\<close>, \<^verbatim>\<open>sonar\<close>,
  \<^verbatim>\<open>grok-3\<close>.
\<close>

theorem default_model_substituted:
  "API_KEY vs \<noteq> [] \<and> model b = None \<longrightarrow>
     map (p_model \<circ> json_arg) (outbound (pipe deepseek str_e loads post vs b))
       = [Some ''deepseek-chat'']
     \<and> map (p_model \<circ> json_arg) (outbound (pipe mistral str_e loads post vs b))
       = [Some ''mistral-large-latest'']
     \<and> map (p_model \<circ> json_arg) (outbound (pipe perplexity str_e loads post vs b))
       = [Some ''sonar'']
     \<and> map (p_model \<circ> json_arg) (outbound (pipe xai str_e loads post vs b))
       = [Some ''grok-3'']"
proof (intro impI)
  assume a: "API_KEY vs \<noteq> [] \<and> model b = None"
  have own: "\<not> prefix ''deepseek.'' ''deepseek-chat''" "\<not> prefix ''mistral.'' ''mistral-large-latest''"
    "\<not> prefix ''perplexity.'' ''sonar''" "\<not> prefix ''xai.'' ''grok-3''"
    by simp_all
  from a have sent: "map (p_model \<circ> json_arg) (outbound (pipe P str_e loads post vs b))
      = [Some (if prefix (pipe_id P @ ''.'') (default_model P)
               then replace (pipe_id P @ ''.'') [] (default_model P) else default_model P)]" for P
    by (simp add: outbound_pipe)
  from own show "map (p_model \<circ> json_arg) (outbound (pipe deepseek str_e loads post vs b))
       = [Some ''deepseek-chat'']
     \<and> map (p_model \<circ> json_arg) (outbound (pipe mistral str_e loads post vs b))
       = [Some ''mistral-large-latest'']
     \<and> map (p_model \<circ> json_arg) (outbound (pipe perplexity str_e loads post vs b))
       = [Some ''sonar'']
     \<and> map (p_model \<circ> json_arg) (outbound (pipe xai str_e loads post vs b))
       = [Some ''grok-3'']"
    by (simp add: sent deepseek_def mistral_def perplexity_def xai_def)
qed

theorem default_model_substituted_witness:
  "map (p_model \<circ> json_arg)
     (outbound (pipe deepseek (\<lambda>e. ''E'') sample_loads
        (\<lambda>c. Inr (json_response 200 [] (complete_response ''Hello'')))
        sample_valves (sample_body None None)))
     = [Some ''deepseek-chat'']
   \<and> map (p_model \<circ> json_arg)
     (outbound (pipe xai (\<lambda>e. ''E'') sample_loads
        (\<lambda>c. Inr (json_response 200 [] (complete_response ''Hello'')))
        sample_valves (sample_body None None)))
     = [Some ''grok-3'']"
proof -
  have "API_KEY sample_valves \<noteq> [] \<and> model (sample_body None None) = None"
    by (simp add: sample_valves_def sample_body_def)
  then show ?thesis
    using default_model_substituted
      [where vs = sample_valves and b = "sample_body None None" and str_e = "\<lambda>e. ''E''"
         and loads = sample_loads
         and post = "\<lambda>c. Inr (json_response 200 [] (complete_response ''Hello''))"]
    by simp
qed

text \<open>
  Claim C6, amended. \<^verbatim>\<open>pipe\<close> of the Cloudflare module splits a model id that contains a dot at
  the first dot and looks up only what follows it; the name found goes into the URL, or, for
  the models of the \<^verbatim>\<open>/responses\<close> endpoint, into the \<^verbatim>\<open>model\<close> of the payload. \<^verbatim>\<open>pipe\<close> of an
  OpenAI-style module removes only the module's own prefix, its \<^verbatim>\<open>id\<close> and a dot: an id made of
  that prefix and a rest in which the prefix does not occur again is sent as the rest, and an
  id that does not start with the prefix is sent as it is.
\<close>

theorem model_prefix_stripped:
  "(CLOUDFLARE_API_KEY v \<noteq> [] \<and> CLOUDFLARE_ACCOUNT_ID v \<noteq> []
      \<and> model b = Some (pre @ ''.'' @ suf) \<and> CHR ''.'' \<notin> set pre \<longrightarrow>
      map url (outbound (cf_pipe sl se lo post v b))
        = [if uses_responses_endpoint (get_cloudflare_model_name suf)
           then BASE_URL v @ ''/'' @ CLOUDFLARE_ACCOUNT_ID v @ ''/ai/v1/responses''
           else BASE_URL v @ ''/'' @ CLOUDFLARE_ACCOUNT_ID v @ ''/ai/run/''
                  @ get_cloudflare_model_name suf]
      \<and> map (p_model \<circ> json_arg) (outbound (cf_pipe sl se lo post v b))
        = [if uses_responses_endpoint (get_cloudflare_model_name suf)
           then Some (get_cloudflare_model_name suf) else None])
   \<and> (API_KEY vs \<noteq> [] \<and> model b = Some (pipe_id P @ ''.'' @ suf)
      \<and> \<not> substring (pipe_id P @ ''.'') suf \<longrightarrow>
      map (p_model \<circ> json_arg) (outbound (pipe P se lo post' vs b)) = [Some suf])
   \<and> (API_KEY vs \<noteq> [] \<and> model b = Some m \<and> \<not> prefix (pipe_id P @ ''.'') m \<longrightarrow>
      map (p_model \<circ> json_arg) (outbound (pipe P se lo post' vs b)) = [Some m])"
proof (intro conjI impI)
  assume a: "CLOUDFLARE_API_KEY v \<noteq> [] \<and> CLOUDFLARE_ACCOUNT_ID v \<noteq> []
      \<and> model b = Some (pre @ ''.'' @ suf) \<and> CHR ''.'' \<notin> set pre"
  then have s: "split1 CHR ''.'' (pre @ CHR ''.'' # suf) ! 1 = suf"
    by (intro split1_first) simp
  from a s show "map url (outbound (cf_pipe sl se lo post v b))
        = [if uses_responses_endpoint (get_cloudflare_model_name suf)
           then BASE_URL v @ ''/'' @ CLOUDFLARE_ACCOUNT_ID v @ ''/ai/v1/responses''
           else BASE_URL v @ ''/'' @ CLOUDFLARE_ACCOUNT_ID v @ ''/ai/run/''
                  @ get_cloudflare_model_name suf]"
    by (simp add: outbound_cf_pipe cf_request_target)
  from a s show "map (p_model \<circ> json_arg) (outbound (cf_pipe sl se lo post v b))
        = [if uses_responses_endpoint (get_cloudflare_model_name suf)
           then Some (get_cloudflare_model_name suf) else None]"
    by (simp add: outbound_cf_pipe cf_request_target)
next
  assume a: "API_KEY vs \<noteq> [] \<and> model b = Some (pipe_id P @ ''.'' @ suf)
      \<and> \<not> substring (pipe_id P @ ''.'') suf"
  have "replace (pipe_id P @ ''.'') [] ((pipe_id P @ ''.'') @ suf) = replace (pipe_id P @ ''.'') [] suf"
    by (rule replace_own_prefix) simp
  also from a have "\<dots> = suf"
    by (simp add: replace_absent)
  finally have "replace (pipe_id P @ ''.'') [] (pipe_id P @ ''.'' @ suf) = suf"
    by simp
  with a show "map (p_model \<circ> json_arg) (outbound (pipe P se lo post' vs b)) = [Some suf]"
    by (simp add: outbound_pipe)
next
  assume "API_KEY vs \<noteq> [] \<and> model b = Some m \<and> \<not> prefix (pipe_id P @ ''.'') m"
  then show "map (p_model \<circ> json_arg) (outbound (pipe P se lo post' vs b)) = [Some m]"
    by (simp add: outbound_pipe)
qed

text \<open>
  The claim as stated fails on its own example: for the model \<^verbatim>\<open>providerX.modelA\<close> the DeepSeek
  module sends the id unchanged, and the payload of the Cloudflare module has no \<^verbatim>\<open>model\<close> at
  all (the name is in the URL).
\<close>

theorem model_prefix_stripped_counterexample:
  "map (p_model \<circ> json_arg)
     (outbound (pipe deepseek (\<lambda>e. ''E'') sample_loads
        (\<lambda>c. Inr (json_response 200 [] (complete_response ''Hello'')))
        sample_valves (sample_body (Some ''providerX.modelA'') None)))
     = [Some ''providerX.modelA'']
   \<and> map (p_model \<circ> json_arg)
     (outbound (cf_pipe (\<lambda>keys. []) (\<lambda>e. ''E'') sample_loads
        (\<lambda>c. Inr (json_response 200 [] (result_response ''Hello'')))
        sample_cf_valves (sample_body (Some ''providerX.modelA'') None)))
     = [None]"
proof -
  have k: "API_KEY sample_valves \<noteq> []" "CLOUDFLARE_API_KEY sample_cf_valves \<noteq> []"
    "CLOUDFLARE_ACCOUNT_ID sample_cf_valves \<noteq> []"
    by (simp_all add: sample_valves_def sample_cf_valves_def)
  show ?thesis
    by (simp add: outbound_pipe outbound_cf_pipe cf_request_target k
          sample_body_def deepseek_def split1_def get_cloudflare_model_name_def
          model_mapping_def uses_responses_endpoint_def)
qed

theorem model_prefix_stripped_witness:
  "map url
     (outbound (cf_pipe (\<lambda>keys. []) (\<lambda>e. ''E'') sample_loads
        (\<lambda>c. Inr (json_response 200 [] (result_response ''Hello'')))
        sample_cf_valves (sample_body (Some ''providerX.modelA'') None)))
     = [''https://api.cloudflare.com/client/v4/accounts/acct/ai/run/modelA'']
   \<and> map (p_model \<circ> json_arg)
     (outbound (pipe deepseek (\<lambda>e. ''E'') sample_loads
        (\<lambda>c. Inr (json_response 200 [] (complete_response ''Hello'')))
        sample_valves (sample_body (Some ''deepseek.deepseek-reasoner'') None)))
     = [Some ''deepseek-reasoner'']
   \<and> map (p_model \<circ> json_arg)
     (outbound (pipe deepseek (\<lambda>e. ''E'') sample_loads
        (\<lambda>c. Inr (json_response 200 [] (complete_response ''Hello'')))
        sample_valves (sample_body (Some ''providerX.modelA'') None)))
     = [Some ''providerX.modelA'']"
proof -
  have h1: "CLOUDFLARE_API_KEY sample_cf_valves \<noteq> [] \<and> CLOUDFLARE_ACCOUNT_ID sample_cf_valves \<noteq> []
      \<and> model (sample_body (Some ''providerX.modelA'') None) = Some (''providerX'' @ ''.'' @ ''modelA'')
      \<and> CHR ''.'' \<notin> set ''providerX''"
    by (simp add: sample_cf_valves_def sample_body_def)
  have h2: "API_KEY sample_valves \<noteq> []
      \<and> model (sample_body (Some ''deepseek.deepseek-reasoner'') None)
          = Some (pipe_id deepseek @ ''.'' @ ''deepseek-reasoner'')
      \<and> \<not> substring (pipe_id deepseek @ ''.'') ''deepseek-reasoner''"
    by (simp add: sample_valves_def sample_body_def deepseek_def)
  have h3: "API_KEY sample_valves \<noteq> []
      \<and> model (sample_body (Some ''providerX.modelA'') None) = Some ''providerX.modelA''
      \<and> \<not> prefix (pipe_id deepseek @ ''.'') ''providerX.modelA''"
    by (simp add: sample_valves_def sample_body_def deepseek_def)
  have n: "get_cloudflare_model_name ''modelA'' = ''modelA''"
    "uses_responses_endpoint ''modelA'' = False"
    by (simp_all add: get_cloudflare_model_name_def model_mapping_def uses_responses_endpoint_def)
  note c1 = model_prefix_stripped
      [where sl = "\<lambda>keys. []" and se = "\<lambda>e. ''E''" and lo = sample_loads
         and post = "\<lambda>c. Inr (json_response 200 [] (result_response ''Hello''))",
       THEN conjunct1, THEN mp, OF h1, THEN conjunct1]
  note c2 = model_prefix_stripped
      [where se = "\<lambda>e. ''E''" and lo = sample_loads
         and post' = "\<lambda>c. Inr (json_response 200 [] (complete_response ''Hello''))",
       THEN conjunct2, THEN conjunct1, THEN mp, OF h2]
  note c3 = model_prefix_stripped
      [where se = "\<lambda>e. ''E''" and lo = sample_loads
         and post' = "\<lambda>c. Inr (json_response 200 [] (complete_response ''Hello''))",
       THEN conjunct2, THEN conjunct2, THEN mp, OF h3]
  have u: "BASE_URL sample_cf_valves @ ''/'' @ CLOUDFLARE_ACCOUNT_ID sample_cf_valves
             @ ''/ai/run/'' @ ''modelA''
           = ''https://api.cloudflare.com/client/v4/accounts/acct/ai/run/modelA''"
    by (simp add: sample_cf_valves_def)
  from c1 have c1': "map url
     (outbound (cf_pipe (\<lambda>keys. []) (\<lambda>e. ''E'') sample_loads
        (\<lambda>c. Inr (json_response 200 [] (result_response ''Hello'')))
        sample_cf_valves (sample_body (Some ''providerX.modelA'') None)))
     = [''https://api.cloudflare.com/client/v4/accounts/acct/ai/run/modelA'']"
    unfolding n if_False u .
  from c1' c2 c3 show ?thesis
    by (intro conjI)
qed

subsection \<open>A missing key\<close>

lemma key_named:
  "substring ''API_KEY''
     (''Error: '' @ vp @ ''_API_KEY is not set. Please configure it in the pipe settings.'')"
  using substring_infix
    [of "''API_KEY''" "''Error: '' @ vp @ ''_''"
        "'' is not set. Please configure it in the pipe settings.''"]
  by simp

text \<open>
  Claim C8, amended. With an empty API key, \<^verbatim>\<open>pipe\<close> returns a text and makes no call of
  \<^verbatim>\<open>requests.post\<close>, now or later. The text of the Cloudflare module contains "API Key"; the
  text of an OpenAI-style module names the valve and contains "API\_KEY".
\<close>

theorem missing_key_reported:
  "(CLOUDFLARE_API_KEY v = [] \<longrightarrow>
      cf_pipe sl se lo post v b
        = (Returned (JStr
             ''Error: Cloudflare API Key is not set. Please configure it in the valve settings.''),
           [])
      \<and> outbound (cf_pipe sl se lo post v b) = [])
   \<and> substring ''API Key''
        ''Error: Cloudflare API Key is not set. Please configure it in the valve settings.''
   \<and> (API_KEY vs = [] \<longrightarrow>
      pipe P se lo post' vs b
        = (Returned (JStr (''Error: '' @ valve_prefix P
             @ ''_API_KEY is not set. Please configure it in the pipe settings.'')), [])
      \<and> outbound (pipe P se lo post' vs b) = [])
   \<and> substring ''API_KEY''
        (''Error: '' @ valve_prefix P
           @ ''_API_KEY is not set. Please configure it in the pipe settings.'')"
proof (intro conjI impI)
  show "substring ''API Key''
        ''Error: Cloudflare API Key is not set. Please configure it in the valve settings.''"
    by simp
next
  show "substring ''API_KEY''
        (''Error: '' @ valve_prefix P
           @ ''_API_KEY is not set. Please configure it in the pipe settings.'')"
    by (rule key_named)
qed (simp_all add: cf_pipe_def pipe_def)

text \<open>
  The claim as stated fails on the DeepSeek module: its text contains neither "API Key" nor
  "API key".
\<close>

theorem missing_key_reported_counterexample:
  "pipe deepseek (\<lambda>e. ''E'') sample_loads
      (\<lambda>c. Inr (json_response 200 [] (complete_response ''Hello'')))
      (sample_valves\<lparr>API_KEY := []\<rparr>) (sample_body None None)
     = (Returned (JStr
          ''Error: DEEPSEEK_API_KEY is not set. Please configure it in the pipe settings.''), [])
   \<and> \<not> substring ''API Key''
        ''Error: DEEPSEEK_API_KEY is not set. Please configure it in the pipe settings.''
   \<and> \<not> substring ''API key''
        ''Error: DEEPSEEK_API_KEY is not set. Please configure it in the pipe settings.''"
  by (simp add: pipe_def deepseek_def sample_valves_def)

theorem missing_key_reported_witness:
  "cf_pipe (\<lambda>keys. []) (\<lambda>e. ''E'') sample_loads
      (\<lambda>c. Inr (json_response 200 [] (result_response ''Hello'')))
      (sample_cf_valves\<lparr>CLOUDFLARE_API_KEY := []\<rparr>) (sample_body None None)
     = (Returned (JStr
          ''Error: Cloudflare API Key is not set. Please configure it in the valve settings.''), [])
   \<and> pipe mistral (\<lambda>e. ''E'') sample_loads
      (\<lambda>c. Inr (json_response 200 [] (complete_response ''Hello'')))
      (sample_valves\<lparr>API_KEY := []\<rparr>) (sample_body None None)
     = (Returned (JStr
          ''Error: MISTRAL_API_KEY is not set. Please configure it in the pipe settings.''), [])"
proof -
  have h1: "CLOUDFLARE_API_KEY (sample_cf_valves\<lparr>CLOUDFLARE_API_KEY := []\<rparr>) = []"
    by simp
  have h2: "API_KEY (sample_valves\<lparr>API_KEY := []\<rparr>) = []"
    by simp
  note c1 = missing_key_reported [THEN conjunct1, THEN mp, OF h1, THEN conjunct1]
  note c2 = missing_key_reported
    [where P = mistral, THEN conjunct2, THEN conjunct2, THEN conjunct1, THEN mp, OF h2,
     THEN conjunct1]
  have m: "''Error: '' @ valve_prefix mistral
             @ ''_API_KEY is not set. Please configure it in the pipe settings.''
           = ''Error: MISTRAL_API_KEY is not set. Please configure it in the pipe settings.''"
    by (simp add: mistral_def)
  show ?thesis
    using c1 c2 unfolding m by (intro conjI)
qed

subsection \<open>Streaming in the Cloudflare module\<close>

text \<open>
  Claim C9, amended. Whatever the body says about \<^verbatim>\<open>stream\<close>, \<^verbatim>\<open>pipe\<close> of the Cloudflare module
  returns a single value and never a generator; no call it makes passes \<^verbatim>\<open>stream=True\<close> or has
  \<^verbatim>\<open>stream\<close> in its payload; its result does not depend on the \<^verbatim>\<open>stream\<close> of the body; and for a
  response with status 200 the value is what the non-streaming extraction gives.
\<close>

theorem cloudflare_never_streams:
  "(case fst (cf_pipe sl se lo post v b) of Returned x \<Rightarrow> True | Generator r cs \<Rightarrow> False)
   \<and> (\<forall>c \<in> set (outbound (cf_pipe sl se lo post v b)).
         \<not> stream_arg c \<and> p_stream (json_arg c) = None)
   \<and> cf_pipe sl se lo post v (b\<lparr>stream := s\<rparr>) = cf_pipe sl se lo post v b
   \<and> (CLOUDFLARE_API_KEY v \<noteq> [] \<and> CLOUDFLARE_ACCOUNT_ID v \<noteq> []
        \<and> status_code resp = 200 \<and> json_of resp = Inr j \<and> extract_text sl j = Inr t \<longrightarrow>
        cf_pipe sl se lo (\<lambda>c. Inr resp) v b = (Returned t, [cf_request v b]))"
proof (intro conjI impI)
  show "case fst (cf_pipe sl se lo post v b) of Returned x \<Rightarrow> True | Generator r cs \<Rightarrow> False"
    by (simp add: cf_pipe_def Let_def split: sum.split)
next
  show "\<forall>c \<in> set (outbound (cf_pipe sl se lo post v b)).
         \<not> stream_arg c \<and> p_stream (json_arg c) = None"
    by (simp add: cf_pipe_def Let_def cf_request_no_stream split: sum.split)
next
  show "cf_pipe sl se lo post v (b\<lparr>stream := s\<rparr>) = cf_pipe sl se lo post v b"
    by (simp add: cf_pipe_def cf_request_stream_ignored)
next
  assume "CLOUDFLARE_API_KEY v \<noteq> [] \<and> CLOUDFLARE_ACCOUNT_ID v \<noteq> []
        \<and> status_code resp = 200 \<and> json_of resp = Inr j \<and> extract_text sl j = Inr t"
  then show "cf_pipe sl se lo (\<lambda>c. Inr resp) v b = (Returned t, [cf_request v b])"
    by (simp add: cf_pipe_def Let_def)
qed

text \<open>
  The claim as stated says in addition that the caller is informed that the response will not
  be incremental. \<^verbatim>\<open>pipe(self, body)\<close> has no channel to the host but its return value, and for
  a request with \<^verbatim>\<open>stream\<close> true it returns what it returns for the same request without it: the
  extracted text and nothing else.
\<close>

theorem cloudflare_never_streams_counterexample:
  "cf_pipe (\<lambda>keys. []) (\<lambda>e. ''E'') sample_loads
      (\<lambda>c. Inr (json_response 200 [] (result_response ''Hello'')))
      sample_cf_valves (sample_body (Some ''cloudflare.cf-llama-3.1-8b-instruct'') (Some (JBool True)))
     = (Returned (JStr ''Hello''),
        [\<lparr>url = ''https://api.cloudflare.com/client/v4/accounts/acct/ai/run/@cf/meta/llama-3.1-8b-instruct'',
          headers = [(''Authorization'', ''Bearer cf-token''),
                     (''Content-Type'', ''application/json'')],
          json_arg = \<lparr>p_model = None,
                       p_messages = Some [\<lparr>role = Some ''user'', content = Some ''hi''\<rparr>],
                       p_input = None, p_params = [], p_stream = None\<rparr>,
          stream_arg = False, timeout_arg = Some 120\<rparr>])
   \<and> cf_pipe (\<lambda>keys. []) (\<lambda>e. ''E'') sample_loads
      (\<lambda>c. Inr (json_response 200 [] (result_response ''Hello'')))
      sample_cf_valves (sample_body (Some ''cloudflare.cf-llama-3.1-8b-instruct'') None)
     = (Returned (JStr ''Hello''),
        [\<lparr>url = ''https://api.cloudflare.com/client/v4/accounts/acct/ai/run/@cf/meta/llama-3.1-8b-instruct'',
          headers = [(''Authorization'', ''Bearer cf-token''),
                     (''Content-Type'', ''application/json'')],
          json_arg = \<lparr>p_model = None,
                       p_messages = Some [\<lparr>role = Some ''user'', content = Some ''hi''\<rparr>],
                       p_input = None, p_params = [], p_stream = None\<rparr>,
          stream_arg = False, timeout_arg = Some 120\<rparr>])"
proof -
  have r: "cf_request sample_cf_valves (sample_body (Some ''cloudflare.cf-llama-3.1-8b-instruct'') s)
      = hd ([\<lparr>url = ''https://api.cloudflare.com/client/v4/accounts/acct/ai/run/@cf/meta/llama-3.1-8b-instruct'',
          headers = [(''Authorization'', ''Bearer cf-token''),
                     (''Content-Type'', ''application/json'')],
          json_arg = \<lparr>p_model = None,
                       p_messages = Some [\<lparr>role = Some ''user'', content = Some ''hi''\<rparr>],
                       p_input = None, p_params = [], p_stream = None\<rparr>,
          stream_arg = False, timeout_arg = Some 120\<rparr>])" for s
    by (simp add: cf_request_def sample_cf_valves_def sample_body_def split1_def
          get_cloudflare_model_name_def model_mapping_def uses_responses_endpoint_def
          copy_params_def)
  have k: "CLOUDFLARE_API_KEY sample_cf_valves \<noteq> []" "CLOUDFLARE_ACCOUNT_ID sample_cf_valves \<noteq> []"
    by (simp_all add: sample_cf_valves_def)
  show ?thesis
    by (simp add: cf_pipe_def k r json_response_def extract_text_def result_response_def)
qed

theorem cloudflare_never_streams_witness:
  "cf_pipe (\<lambda>keys. []) (\<lambda>e. ''E'') sample_loads
      (\<lambda>c. Inr (json_response 200 [] (result_response ''Hello'')))
      sample_cf_valves (sample_body (Some ''cloudflare.cf-gpt-oss-20b'') (Some (JBool True)))
     = (Returned (JStr ''Hello''),
        [cf_request sample_cf_valves
           (sample_body (Some ''cloudflare.cf-gpt-oss-20b'') (Some (JBool True)))])
   \<and> stream_arg (cf_request sample_cf_valves
           (sample_body (Some ''cloudflare.cf-gpt-oss-20b'') (Some (JBool True)))) = False"
proof -
  have h: "CLOUDFLARE_API_KEY sample_cf_valves \<noteq> [] \<and> CLOUDFLARE_ACCOUNT_ID sample_cf_valves \<noteq> []
        \<and> status_code (json_response 200 [] (result_response ''Hello'')) = 200
        \<and> json_of (json_response 200 [] (result_response ''Hello'')) = Inr (result_response ''Hello'')
        \<and> extract_text (\<lambda>keys. []) (result_response ''Hello'') = Inr (JStr ''Hello'')"
    by (simp add: sample_cf_valves_def json_response_def extract_text_def result_response_def)
  note c = cloudflare_never_streams
    [THEN conjunct2, THEN conjunct2, THEN conjunct2, THEN mp, OF h]
  show ?thesis
    using c by (simp add: cf_request_no_stream)
qed

end
